theory Spec2Isabelle
  imports Main "HOL-Library.Sublist"
begin

section \<open>Python values, exceptions and outcomes\<close>

text \<open>
  Texts (Python \<open>str\<close>) are \<open>string\<close>s. The value that \<open>json.load\<close> hands back, and
  more generally every Python value the store and the retrieval path pass around, is a
  \<open>json\<close> value; \<open>JNull\<close> is Python's \<open>None\<close>. A \<open>JObject\<close> lists the items of the
  parsed \<open>dict\<close>, and \<open>map_of\<close> is \<open>dict.get\<close>.
\<close>

datatype json =
    JNull
  | JBool bool
  | JInt int
  | JFloat string
  | JString string
  | JArray "json list"
  | JObject "(string \<times> json) list"

text \<open>
  Exceptions: \<open>asyncio.CancelledError\<close> (a \<open>BaseException\<close> that is not an
  \<open>Exception\<close>), any instance of \<open>Exception\<close> with its \<open>str(e)\<close>, and any other
  \<open>BaseException\<close> (\<open>KeyboardInterrupt\<close>, \<open>SystemExit\<close>), which no handler of the
  program catches.
\<close>

datatype exn = CancelledError | Exception string | BaseException string

datatype 'a outcome = Returns 'a | Raises exn

section \<open>The results directory and the two processes\<close>

text \<open>
  A file of \<open>RESULTS_DIR\<close> either parses (\<open>Document\<close>, holding what \<open>json.load\<close>
  returns) or makes \<open>json.load\<close> raise with the given message (\<open>Garbage\<close>: an empty,
  truncated or otherwise ill-formed text).
\<close>

datatype file_content = Garbage string | Document json

text \<open>
  What the storage does on one write (\<open>open(result_file, 'w')\<close> followed by
  \<open>json.dump\<close>) and on one read (\<open>open(result_file, 'r')\<close> followed by \<open>json.load\<close>):
  the write can fail at \<open>open\<close>, leaving the directory as it was, or in \<open>json.dump\<close>,
  after \<open>open\<close> has truncated the file; the read of an existing file can fail before
  parsing. Each failure raises an \<open>Exception\<close> (an \<open>OSError\<close>) with the given message.
\<close>

datatype write_outcome = WriteOk | OpenFails string | DumpFails string string

datatype read_outcome = ReadOk | ReadFails string

text \<open>The lines a process prints, one constructor for each \<open>print\<close> of the source.\<close>

datatype log_line =
    Saved string
  | SaveError string
  | Loaded string
  | LoadError string
  | Spawning string
  | WorkerStarted nat
  | RetrievedDisk string
  | RetrievedMemory string
  | NoResults string
  | StepCompleted nat
  | Starting string
  | SearchCompleted string
  | Results string
  | SearchCancelled string
  | SearchError string string

text \<open>
  A process sees the files of \<open>RESULTS_DIR\<close> (keyed by their name in that directory) and
  has its standard output. The server process has, in addition, the module-level
  dictionary \<open>search_results\<close>, the notifications delivered through the caller-facing
  context, and the worker processes it has started (pid, request id, task).

  \<open>print\<close> is the print of \<open>server.py\<close>: the server's standard output is the channel
  it is run on (\<open>mcp.run(transport='stdio')\<close>), there while the server serves a request,
  and these prints do not ask for a flush; they are taken to succeed. The prints of
  the worker are another matter, see \<open>print_flush\<close> below.
\<close>

record process =
  files :: "string \<rightharpoonup> file_content"
  stdout :: "log_line list"

datatype notification = Info string | Progress nat | Error string

record server = process +
  search_results :: "string \<rightharpoonup> string"
  notifications :: "notification list"
  workers :: "(nat \<times> string \<times> string) list"

definition print :: "log_line \<Rightarrow> 'a process_scheme \<Rightarrow> 'a process_scheme" where
  "print l st = st\<lparr>stdout := stdout st @ [l]\<rparr>"

section \<open>The Result Store\<close>

definition startswith :: "string \<Rightarrow> string \<Rightarrow> bool" where
  "startswith s p = (take (length p) s = p)"

text \<open>\<open>RESULTS_DIR / f"{request_id}.json"\<close>, as a name in \<open>RESULTS_DIR\<close>.\<close>

definition result_file :: "string \<Rightarrow> string" where
  "result_file request_id = request_id @ ''.json''"

text \<open>The dictionary \<open>data\<close> of \<open>save_result_to_disk\<close>; \<open>now\<close> is \<open>datetime.now().isoformat()\<close>.\<close>

definition data :: "string \<Rightarrow> string \<Rightarrow> string \<Rightarrow> json" where
  "data request_id result now = JObject
     [(''request_id'', JString request_id),
      (''result'', JString result),
      (''timestamp'', JString now),
      (''status'', JString
         (if \<not> startswith result ''Error'' \<and> \<not> startswith result ''Search was cancelled''
          then ''completed'' else ''error''))]"

text \<open>
  \<open>with open(result_file, 'w') as f: json.dump(data, f, indent=2)\<close>. The \<open>json\<close>
  module is the library's: a completed \<open>json.dump\<close> leaves a file that \<open>json.load\<close>
  parses back to the dictionary written (the file holds \<open>Document d\<close>). A failed
  \<open>json.dump\<close> leaves a strict prefix of the document, which does not parse; its second
  message is the one \<open>json.load\<close> gives for that prefix.
\<close>

definition write_json ::
  "write_outcome \<Rightarrow> string \<Rightarrow> json \<Rightarrow> 'a process_scheme \<Rightarrow> unit outcome \<times> 'a process_scheme" where
  "write_json w path d st =
     (case w of
        WriteOk \<Rightarrow> (Returns (), st\<lparr>files := (files st)(path \<mapsto> Document d)\<rparr>)
      | OpenFails e \<Rightarrow> (Raises (Exception e), st)
      | DumpFails e m \<Rightarrow> (Raises (Exception e), st\<lparr>files := (files st)(path \<mapsto> Garbage m)\<rparr>))"

text \<open>
  \<open>save_result_to_disk\<close> of \<open>server.py\<close> (lines 25-39); the copy of
  \<open>search_worker.py\<close> is \<open>worker_save_result_to_disk\<close> below. The body of the
  \<open>try\<close> raises only where the write does; \<open>except Exception\<close> catches an \<open>Exception\<close>
  and lets anything else through.
\<close>

definition save_result_to_disk ::
  "write_outcome \<Rightarrow> string \<Rightarrow> string \<Rightarrow> string \<Rightarrow> 'a process_scheme
     \<Rightarrow> unit outcome \<times> 'a process_scheme" where
  "save_result_to_disk w now request_id result st =
     (case write_json w (result_file request_id) (data request_id result now) st of
        (Returns _, st') \<Rightarrow> (Returns (), print (Saved (result_file request_id)) st')
      | (Raises (Exception e), st') \<Rightarrow> (Returns (), print (SaveError e) st')
      | (Raises x, st') \<Rightarrow> (Raises x, st'))"

text \<open>\<open>type(v).__name__\<close>, and the message of the \<open>AttributeError\<close> that \<open>v.get\<close> raises.\<close>

fun type_name :: "json \<Rightarrow> string" where
  "type_name JNull = ''NoneType''"
| "type_name (JBool _) = ''bool''"
| "type_name (JInt _) = ''int''"
| "type_name (JFloat _) = ''float''"
| "type_name (JString _) = ''str''"
| "type_name (JArray _) = ''list''"
| "type_name (JObject _) = ''dict''"

definition sq :: string where
  "sq = [CHR 0x27]"

definition no_attribute_get :: "json \<Rightarrow> string" where
  "no_attribute_get v = sq @ type_name v @ sq @ '' object has no attribute '' @ sq @ ''get'' @ sq"

text \<open>
  \<open>with open(result_file, 'r') as f: data = json.load(f)\<close> on a file that exists, and
  \<open>data.get("result")\<close>, which is defined on a dictionary only.
\<close>

definition read_json :: "read_outcome \<Rightarrow> file_content \<Rightarrow> json outcome" where
  "read_json r c =
     (case r of
        ReadFails e \<Rightarrow> Raises (Exception e)
      | ReadOk \<Rightarrow> (case c of Garbage e \<Rightarrow> Raises (Exception e) | Document d \<Rightarrow> Returns d))"

definition get :: "json \<Rightarrow> string \<Rightarrow> json outcome" where
  "get d k =
     (case d of
        JObject kv \<Rightarrow> Returns (case map_of kv k of None \<Rightarrow> JNull | Some v \<Rightarrow> v)
      | _ \<Rightarrow> Raises (Exception (no_attribute_get d)))"

text \<open>
  The body of the \<open>try\<close> of \<open>load_result_from_disk\<close> (server.py, lines 44-50), and the
  function with its \<open>except Exception\<close>. \<open>JNull\<close> is the \<open>None\<close> it returns.
\<close>

definition load_body ::
  "read_outcome \<Rightarrow> string \<Rightarrow> 'a process_scheme \<Rightarrow> json outcome \<times> 'a process_scheme" where
  "load_body r request_id st =
     (case files st (result_file request_id) of
        None \<Rightarrow> (Returns JNull, st)
      | Some c \<Rightarrow>
          (case read_json r c of
             Raises x \<Rightarrow> (Raises x, st)
           | Returns d \<Rightarrow> (get d ''result'', print (Loaded (result_file request_id)) st)))"

definition load_result_from_disk ::
  "read_outcome \<Rightarrow> string \<Rightarrow> 'a process_scheme \<Rightarrow> json outcome \<times> 'a process_scheme" where
  "load_result_from_disk r request_id st =
     (case load_body r request_id st of
        (Raises (Exception e), st') \<Rightarrow> (Returns JNull, print (LoadError e) st')
      | other \<Rightarrow> other)"

section \<open>Result Retrieval\<close>

text \<open>\<open>get_search_results\<close> (server.py, lines 110-130).\<close>

definition not_found :: "string \<Rightarrow> string" where
  "not_found request_id = ''No search results found for request ID: '' @ request_id"

definition get_search_results ::
  "read_outcome \<Rightarrow> string \<Rightarrow> server \<Rightarrow> json outcome \<times> server" where
  "get_search_results r request_id st =
     (case load_result_from_disk r request_id st of
        (Raises x, st1) \<Rightarrow> (Raises x, st1)
      | (Returns disk_result, st1) \<Rightarrow>
          if disk_result \<noteq> JNull then (Returns disk_result, print (RetrievedDisk request_id) st1)
          else (case search_results st1 request_id of
                  Some text \<Rightarrow> (Returns (JString text), print (RetrievedMemory request_id) st1)
                | None \<Rightarrow>
                    (Returns (JString (not_found request_id)), print (NoResults request_id) st1)))"

text \<open>A field of the record a file holds, when the file parses to a dictionary.\<close>

definition field :: "string \<Rightarrow> file_content option \<Rightarrow> json option" where
  "field k c = (case c of Some (Document (JObject kv)) \<Rightarrow> map_of kv k | _ \<Rightarrow> None)"

text \<open>
  The spec's "a durable record with a result exists", read off the directory: the
  file named by the request identifier followed by \<open>.json\<close> can be read, parses to a
  dictionary, and has a \<open>result\<close> entry that is not \<open>null\<close>.
\<close>

definition durable_result :: "read_outcome \<Rightarrow> string \<Rightarrow> 'a process_scheme \<Rightarrow> json option" where
  "durable_result r request_id st =
     (if r = ReadOk
      then (case field ''result'' (files st (request_id @ ''.json'')) of
              Some v \<Rightarrow> if v = JNull then None else Some v
            | None \<Rightarrow> None)
      else None)"

section \<open>The caller-facing context and the dispatcher\<close>

text \<open>\<open>str(n)\<close> for a natural number: its decimal digits.\<close>

fun str_nat :: "nat \<Rightarrow> string" where
  "str_nat n =
     (if n < 10 then [char_of (48 + n)] else str_nat (n div 10) @ [char_of (48 + n mod 10)])"

declare str_nat.simps [simp del]

definition nl :: string where
  "nl = [CHR 0x0A]"

definition dq :: string where
  "dq = [CHR 0x22]"

text \<open>
  The context of one invocation: its request identifier, and for each notification
  whether delivering it raises (\<open>None\<close>: it is delivered).
\<close>

record caller_context =
  ctx_request_id :: string
  ctx_info :: "string \<Rightarrow> exn option"
  ctx_error :: "string \<Rightarrow> exn option"
  ctx_report_progress :: "nat \<Rightarrow> exn option"

definition notify :: "exn option \<Rightarrow> notification \<Rightarrow> server \<Rightarrow> unit outcome \<times> server" where
  "notify failure n st =
     (case failure of
        None \<Rightarrow> (Returns (), st\<lparr>notifications := notifications st @ [n]\<rparr>)
      | Some x \<Rightarrow> (Raises x, st))"

text \<open>\<open>subprocess.Popen\<close>: the worker's pid, or an \<open>OSError\<close>.\<close>

datatype spawn_outcome = Spawned nat | SpawnFails string

text \<open>The f-string \<open>task\<close> of \<open>find_menu_options\<close> (server.py, lines 65-84).\<close>

definition search_task :: "string \<Rightarrow> string \<Rightarrow> string" where
  "search_task address food_craving =
     nl @ ''0. Start by going to: https://www.ubereats.com/'' @ nl
     @ ''1. Look for the address/location input field (usually at the top of the page)'' @ nl
     @ ''2. Click on the address field and clear any existing text'' @ nl
     @ ''3. Type '' @ dq @ address @ dq @ '' and wait 2 seconds for autocomplete suggestions'' @ nl
     @ ''4. Press Enter or click the first suggestion to set the delivery location'' @ nl
     @ ''5. Wait 3 seconds for the page to load with restaurants for this location'' @ nl
     @ ''6. Find the search bar for food/restaurants (usually near the top)'' @ nl
     @ ''7. Type '' @ dq @ food_craving @ dq @ '' in the search bar and press Enter'' @ nl
     @ ''8. Wait 3 seconds for search results to load'' @ nl
     @ ''9. Scroll down to see more options if needed'' @ nl
     @ ''10. Collect the following information for the top 10 items/dishes you find:'' @ nl
     @ ''    - Restaurant name'' @ nl
     @ ''    - Item/dish name'' @ nl
     @ ''    - Price'' @ nl
     @ ''    - Rating (if visible)'' @ nl
     @ ''    - Delivery time estimate (if visible)'' @ nl
     @ ''    - Direct URL to the item'' @ nl
     @ ''11. Format the results as a clear list with all details for each of the 10 options'' @ nl"

definition initial_status :: "string \<Rightarrow> string \<Rightarrow> string" where
  "initial_status address food_craving =
     ''Search for '' @ sq @ food_craving @ sq @ '' at '' @ sq @ address @ sq
     @ '' is running. Check back in 2-3 minutes for results.''"

text \<open>
  \<open>find_menu_options\<close> (server.py, lines 56-108). Neither \<open>Popen\<close> nor
  \<open>context.info\<close> stands in a \<open>try\<close>: what they raise leaves the function.
\<close>

definition find_menu_options ::
  "spawn_outcome \<Rightarrow> caller_context \<Rightarrow> write_outcome \<Rightarrow> string \<Rightarrow> string \<Rightarrow> string \<Rightarrow> server
     \<Rightarrow> string outcome \<times> server" where
  "find_menu_options spawn ctx w now address food_craving st =
     (let task = search_task address food_craving;
          st1 = print (Spawning (ctx_request_id ctx)) st
      in case spawn of
           SpawnFails e \<Rightarrow> (Raises (Exception e), st1)
         | Spawned pid \<Rightarrow>
             (let st2 = print (WorkerStarted pid)
                          (st1\<lparr>workers := workers st1 @ [(pid, ctx_request_id ctx, task)]\<rparr>);
                  started = ''Search for '' @ sq @ food_craving @ sq @ '' at '' @ sq @ address
                            @ sq @ '' started in background''
              in case notify (ctx_info ctx started) (Info started) st2 of
                   (Raises x, st3) \<Rightarrow> (Raises x, st3)
                 | (Returns _, st3) \<Rightarrow>
                     (let st4 = st3\<lparr>search_results :=
                                  (search_results st3)(ctx_request_id ctx
                                     \<mapsto> initial_status address food_craving)\<rparr>
                      in case save_result_to_disk w now (ctx_request_id ctx)
                                (initial_status address food_craving) st4 of
                           (Raises x, st5) \<Rightarrow> (Raises x, st5)
                         | (Returns _, st5) \<Rightarrow>
                             (Returns
                                (''Search started! Worker process (PID '' @ str_nat pid
                                 @ '') is running the browser automation. Results will be ''
                                 @ ''available in 2-3 minutes at resource://search_results/''
                                 @ ctx_request_id ctx),
                              st5))))"

section \<open>The Progress Reporter\<close>

text \<open>
  The worker process. \<open>find_menu_options\<close> starts it with \<open>stdout=subprocess.PIPE\<close>
  and \<open>start_new_session=True\<close> and never reads the pipe, and the worker is to go on
  when the server has exited: then the pipe has no reader, and a
  \<open>print(..., flush=True)\<close> of the worker raises \<open>BrokenPipeError\<close>, an \<open>Exception\<close>.
  So each print of the worker can fail: \<open>print_faults\<close> says for the n-th print the
  process attempts whether it raises, and with which message; \<open>prints\<close> counts the
  attempts so far. (The server's own \<open>print\<close> writes to the standard output on which
  the server is spoken to, and is taken not to fail.)
\<close>

record worker = process +
  prints :: nat
  print_faults :: "nat \<Rightarrow> string option"

definition print_flush :: "log_line \<Rightarrow> worker \<Rightarrow> unit outcome \<times> worker" where
  "print_flush l st =
     (case print_faults st (prints st) of
        None \<Rightarrow> (Returns (), st\<lparr>stdout := stdout st @ [l], prints := Suc (prints st)\<rparr>)
      | Some e \<Rightarrow> (Raises (Exception e), st\<lparr>prints := Suc (prints st)\<rparr>))"

text \<open>
  \<open>save_result_to_disk\<close> of \<open>search_worker.py\<close> (lines 17-31): the same text as the
  server's, with \<open>flush=True\<close> on its two prints. The first print is the last statement
  of the \<open>try\<close>, so the handler catches what it raises; the second is in the handler,
  and what it raises leaves the function.
\<close>

definition worker_save_result_to_disk ::
  "write_outcome \<Rightarrow> string \<Rightarrow> string \<Rightarrow> string \<Rightarrow> worker \<Rightarrow> unit outcome \<times> worker" where
  "worker_save_result_to_disk w now request_id result st =
     (case (case write_json w (result_file request_id) (data request_id result now) st of
              (Returns _, st1) \<Rightarrow> print_flush (Saved (result_file request_id)) st1
            | (Raises x, st1) \<Rightarrow> (Raises x, st1)) of
        (Raises (Exception e), st2) \<Rightarrow> print_flush (SaveError e) st2
      | other \<Rightarrow> other)"

text \<open>
  A step callback takes the engine's positional and keyword arguments (of any type)
  and the state it closes over: its \<open>nonlocal step_count\<close> and the process.

  \<open>step_handler\<close> of \<open>run_search\<close> (search_worker.py, lines 38-41):
\<close>

definition search_step_handler ::
  "'a list \<Rightarrow> (string \<times> 'a) list \<Rightarrow> nat \<times> worker \<Rightarrow> unit outcome \<times> nat \<times> worker" where
  "search_step_handler args kwargs s =
     (case s of (step_count, st) \<Rightarrow>
        (case print_flush (StepCompleted (step_count + 1)) st of
           (out, st') \<Rightarrow> (out, step_count + 1, st')))"


section \<open>The Automation Engine and the worker\<close>











section \<open>The in-process background task\<close>







section \<open>Example states\<close>

text \<open>
  A fresh server process with an empty results directory; a server whose directory
  holds three records that give no result (an ill-formed file, a record without a
  \<open>result\<close> entry, a record whose \<open>result\<close> is \<open>null\<close>); a server that has the finished
  record of request 1 on disk and the placeholder of request 3 in memory only; a
  context whose notifications are all delivered and one whose \<open>info\<close> fails; an engine
  that invokes its callback twice, with different arguments, and ends as given; a
  worker whose prints all succeed, one whose standard output has no reader from the
  start, and one that loses the reader after its fourth print.
\<close>

definition example_server :: server where
  "example_server = \<lparr>files = Map.empty, stdout = [], search_results = Map.empty,
     notifications = [], workers = []\<rparr>"

definition stale_server :: server where
  "stale_server = \<lparr>files = map_of
       [(''2.json'', Garbage ''Expecting value: line 1 column 1 (char 0)''),
        (''3.json'', Document (JObject [(''request_id'', JString ''3'')])),
        (''4.json'', Document (JObject [(''request_id'', JString ''4''), (''result'', JNull)]))],
     stdout = [], search_results = map_of [(''3'', ''Search for pizza is running.'')],
     notifications = [], workers = []\<rparr>"

definition busy_server :: server where
  "busy_server = \<lparr>files = map_of
       [(''1.json'', Document (JObject
           [(''request_id'', JString ''1''), (''result'', JString ''Restaurant: Vesuvio''),
            (''timestamp'', JString ''2025-06-01T12:03:00''),
            (''status'', JString ''completed'')]))],
     stdout = [], search_results = map_of [(''3'', ''Search for pizza is running.'')],
     notifications = [], workers = []\<rparr>"

definition example_context :: caller_context where
  "example_context = \<lparr>ctx_request_id = ''7'', ctx_info = (\<lambda>_. None), ctx_error = (\<lambda>_. None),
     ctx_report_progress = (\<lambda>_. None)\<rparr>"



definition example_worker :: worker where
  "example_worker = \<lparr>files = Map.empty, stdout = [], prints = 0, print_faults = (\<lambda>_. None)\<rparr>"



section \<open>Properties of the Result Store\<close>

lemma files_print [simp]: "files (print l st) = files st"
  by (simp add: print_def)

lemma search_results_print [simp]: "search_results (print l st) = search_results st"
  by (simp add: print_def)

lemma stdout_print [simp]: "stdout (print l st) = stdout st @ [l]"
  by (simp add: print_def)

lemma startswith_prefix: "startswith s p = prefix p s"
  by (auto simp: startswith_def prefix_def) (metis append_take_drop_id)

lemma save_result_to_disk_returns: "fst (save_result_to_disk w now rid result st) = Returns ()"
  by (simp add: save_result_to_disk_def write_json_def split: write_outcome.splits)

lemma save_result_to_disk_ok:
  "snd (save_result_to_disk WriteOk now rid result st)
   = print (Saved (result_file rid))
       (st\<lparr>files := (files st)(result_file rid \<mapsto> Document (data rid result now))\<rparr>)"
  by (simp add: save_result_to_disk_def write_json_def)

lemma files_save_ok:
  "files (snd (save_result_to_disk WriteOk now rid result st)) (result_file rid)
     = Some (Document (data rid result now))"
  by (simp add: save_result_to_disk_def write_json_def print_def)

lemma save_result_to_disk_mirror:
  "search_results (snd (save_result_to_disk w now rid result st)) = search_results st"
  by (simp add: save_result_to_disk_def write_json_def print_def split: write_outcome.splits)

lemma not_startswith_initial_status:
  "\<not> startswith (initial_status address food_craving) ''Error''
   \<and> \<not> startswith (initial_status address food_craving) ''Search was cancelled''"
  by (simp add: startswith_prefix initial_status_def)


section \<open>Properties of retrieval\<close>

lemma load_result_from_disk_fst:
  "fst (load_result_from_disk r request_id st)
   = Returns (case durable_result r request_id st of Some v \<Rightarrow> v | None \<Rightarrow> JNull)"
  by (auto simp: load_result_from_disk_def load_body_def durable_result_def field_def
      read_json_def get_def result_file_def
      split: option.splits read_outcome.splits file_content.splits json.splits)

lemma load_result_from_disk_mirror:
  "search_results (snd (load_result_from_disk r request_id st)) = search_results st"
  by (auto simp: load_result_from_disk_def load_body_def durable_result_def field_def
      read_json_def get_def result_file_def
      split: option.splits read_outcome.splits file_content.splits json.splits)

lemma durable_result_not_null: "durable_result r request_id st = Some v \<Longrightarrow> v \<noteq> JNull"
  by (auto simp: durable_result_def split: if_splits option.splits)


lemma get_search_results_fst:
  "fst (get_search_results r request_id st)
   = Returns (case durable_result r request_id st of
                Some v \<Rightarrow> v
              | None \<Rightarrow>
                  (case search_results st request_id of
                     Some text \<Rightarrow> JString text
                   | None \<Rightarrow> JString (not_found request_id)))"
proof -
  obtain o1 st1 where l: "load_result_from_disk r request_id st = (o1, st1)"
    by (cases "load_result_from_disk r request_id st")
  have o1: "o1 = Returns (case durable_result r request_id st of Some v \<Rightarrow> v | None \<Rightarrow> JNull)"
    using load_result_from_disk_fst [of r request_id st] l by simp
  have s1: "search_results st1 = search_results st"
    using load_result_from_disk_mirror [of r request_id st] l by simp
  show ?thesis
    using durable_result_not_null [of r request_id st]
    by (auto simp: get_search_results_def l o1 s1 split: option.splits)
qed

section \<open>Properties of the dispatcher\<close>

lemma find_menu_options_ok:
  assumes "ctx_info ctx (''Search for '' @ sq @ food_craving @ sq @ '' at '' @ sq @ address
                         @ sq @ '' started in background'') = None"
  shows "fst (find_menu_options (Spawned pid) ctx w now address food_craving st)
         = Returns (''Search started! Worker process (PID '' @ str_nat pid
                    @ '') is running the browser automation. Results will be ''
                    @ ''available in 2-3 minutes at resource://search_results/''
                    @ ctx_request_id ctx)"
    and "search_results (snd (find_menu_options (Spawned pid) ctx w now address food_craving st))
           (ctx_request_id ctx) = Some (initial_status address food_craving)"
    and "files (snd (find_menu_options (Spawned pid) ctx WriteOk now address food_craving st))
           (result_file (ctx_request_id ctx))
         = Some (Document (data (ctx_request_id ctx) (initial_status address food_craving) now))"
  using assms
  by (simp_all add: find_menu_options_def Let_def notify_def save_result_to_disk_def
      write_json_def print_def split: write_outcome.splits)



section \<open>Properties of the worker\<close>

lemma print_flush_files [simp]: "files (snd (print_flush l st)) = files st"
  by (simp add: print_flush_def split: option.splits)

lemma print_flush_faults [simp]: "print_faults (snd (print_flush l st)) = print_faults st"
  by (simp add: print_flush_def split: option.splits)



lemma write_json_faults [simp]: "print_faults (snd (write_json w path d st)) = print_faults st"
  by (simp add: write_json_def split: write_outcome.splits)

lemma write_json_prints [simp]: "prints (snd (write_json w path d st)) = prints st"
  by (simp add: write_json_def split: write_outcome.splits)

lemma worker_save_files:
  "files (snd (worker_save_result_to_disk w now rid t st))
   = (case w of
        WriteOk \<Rightarrow> (files st)(result_file rid \<mapsto> Document (data rid t now))
      | OpenFails e \<Rightarrow> files st
      | DumpFails e m \<Rightarrow> (files st)(result_file rid \<mapsto> Garbage m))"
  by (simp add: worker_save_result_to_disk_def write_json_def print_flush_def
      split: write_outcome.splits option.splits)

lemma worker_save_faults [simp]:
  "print_faults (snd (worker_save_result_to_disk w now rid t st)) = print_faults st"
  by (simp add: worker_save_result_to_disk_def write_json_def print_flush_def
      split: write_outcome.splits option.splits)




lemma search_step_handler_fst:
  "fst (search_step_handler args kwargs (n, st)) = fst (print_flush (StepCompleted (Suc n)) st)"
  by (simp add: search_step_handler_def split: prod.splits)

















section \<open>The claims\<close>

text \<open>
  C1. The status field that \<open>save_result_to_disk\<close> persists for a result text is
  \<open>error\<close> exactly when the text begins with \<open>Error\<close> or with \<open>Search was cancelled\<close>,
  and \<open>completed\<close> for every other text; a genuine result that begins with \<open>Error\<close> is
  an \<open>error\<close> too. The same holds of the worker's copy, whatever its prints do.
\<close>

theorem C1_persisted_status:
  "field ''status''
     (files (snd (save_result_to_disk WriteOk now request_id result st)) (result_file request_id))
   = Some (JString (if prefix ''Error'' result \<or> prefix ''Search was cancelled'' result
                    then ''error'' else ''completed''))
   \<and> field ''status''
       (files (snd (worker_save_result_to_disk WriteOk now request_id result wst))
          (result_file request_id))
     = Some (JString (if prefix ''Error'' result \<or> prefix ''Search was cancelled'' result
                      then ''error'' else ''completed''))"
  by (simp add: files_save_ok worker_save_files field_def data_def startswith_prefix)

text \<open>
  C2. \<open>get_search_results\<close> never raises. It returns the \<open>result\<close> of the durable
  record of the identifier (the file named by the identifier and \<open>.json\<close>) when there
  is one; otherwise the text the dictionary \<open>search_results\<close> holds for the identifier;
  otherwise the message \<open>No search results found for request ID: {request_id}\<close>, which
  is not the empty text. The records of other requests play no part.
\<close>

theorem C2_retrieval_order:
  "fst (get_search_results r request_id st)
   = Returns (case durable_result r request_id st of
                Some v \<Rightarrow> v
              | None \<Rightarrow>
                  (case search_results st request_id of
                     Some text \<Rightarrow> JString text
                   | None \<Rightarrow> JString (''No search results found for request ID: '' @ request_id)))
   \<and> (durable_result r request_id st = None \<and> search_results st request_id = None
        \<longrightarrow> fst (get_search_results r request_id st) \<noteq> Returns (JString ''''))"
proof -
  obtain o1 st1 where l: "load_result_from_disk r request_id st = (o1, st1)"
    by (cases "load_result_from_disk r request_id st")
  have o1: "o1 = Returns (case durable_result r request_id st of Some v \<Rightarrow> v | None \<Rightarrow> JNull)"
    using arg_cong [OF l, of fst]
    by (auto simp: load_result_from_disk_def load_body_def durable_result_def field_def
        read_json_def get_def result_file_def
        split: option.splits read_outcome.splits file_content.splits json.splits)
  have s1: "search_results st1 = search_results st"
    using arg_cong [OF l, of "\<lambda>x. search_results (snd x)"]
    by (auto simp: load_result_from_disk_def load_body_def read_json_def get_def
        split: option.splits read_outcome.splits file_content.splits json.splits)
  have nn: "v \<noteq> JNull" if "durable_result r request_id st = Some v" for v
    using that by (auto simp: durable_result_def split: if_splits option.splits)
  show ?thesis
    using nn by (auto simp: get_search_results_def l o1 s1 not_found_def split: option.splits)
qed

theorem C2_retrieval_order_witness:
  "fst (get_search_results ReadOk ''1'' busy_server) = Returns (JString ''Restaurant: Vesuvio'')
   \<and> fst (get_search_results ReadOk ''3'' busy_server)
       = Returns (JString ''Search for pizza is running.'')
   \<and> durable_result ReadOk ''7'' busy_server = None
   \<and> search_results busy_server ''7'' = None
   \<and> fst (get_search_results ReadOk ''7'' busy_server)
       = Returns (JString ''No search results found for request ID: 7'')
   \<and> fst (get_search_results ReadOk ''7'' busy_server) \<noteq> Returns (JString '''')"
proof -
  have "fst (get_search_results ReadOk ''1'' busy_server)
        = Returns (JString ''Restaurant: Vesuvio'')"
    and "fst (get_search_results ReadOk ''3'' busy_server)
        = Returns (JString ''Search for pizza is running.'')"
    and "fst (get_search_results ReadOk ''7'' busy_server)
        = Returns (JString ''No search results found for request ID: 7'')"
    by (simp_all add: get_search_results_def load_result_from_disk_def load_body_def
        read_json_def get_def result_file_def not_found_def print_def busy_server_def)
  moreover have "durable_result ReadOk ''7'' busy_server = None"
    and "search_results busy_server ''7'' = None"
    by (simp_all add: durable_result_def field_def busy_server_def)
  ultimately show ?thesis
    using C2_retrieval_order [of ReadOk "''7''" busy_server] by simp
qed

text \<open>
  C3. Round trip: the record \<open>save_result_to_disk\<close> writes for a request identifier,
  read back by \<open>load_result_from_disk\<close>, gives the result text that was written.
\<close>

theorem C3_save_load_roundtrip:
  "fst (load_result_from_disk ReadOk request_id
          (snd (save_result_to_disk WriteOk now request_id result st)))
   = Returns (JString result)"
  by (simp add: load_result_from_disk_def load_body_def files_save_ok read_json_def get_def
      data_def)
















text \<open>
  C9. The placeholder record that \<open>find_menu_options\<close> writes has the status
  \<open>completed\<close>; every record \<open>save_result_to_disk\<close> writes, in the server and in the
  worker, has the status \<open>completed\<close> or \<open>error\<close>, never \<open>running\<close>.
\<close>

theorem C9_placeholder_status_completed:
  "(ctx_info ctx (''Search for '' @ [CHR 0x27] @ food_craving @ [CHR 0x27] @ '' at ''
                   @ [CHR 0x27] @ address @ [CHR 0x27] @ '' started in background'') = None
    \<longrightarrow> field ''status''
          (files (snd (find_menu_options (Spawned pid) ctx WriteOk now address food_craving st))
            (result_file (ctx_request_id ctx)))
        = Some (JString ''completed''))
   \<and> (field ''status''
         (files (snd (save_result_to_disk WriteOk now request_id result st')) (result_file request_id))
       = Some (JString ''completed'')
      \<or> field ''status''
         (files (snd (save_result_to_disk WriteOk now request_id result st')) (result_file request_id))
       = Some (JString ''error''))
   \<and> field ''status''
         (files (snd (save_result_to_disk WriteOk now request_id result st')) (result_file request_id))
       \<noteq> Some (JString ''running'')
   \<and> (field ''status''
         (files (snd (worker_save_result_to_disk WriteOk now request_id result wst))
            (result_file request_id))
       = Some (JString ''completed'')
      \<or> field ''status''
         (files (snd (worker_save_result_to_disk WriteOk now request_id result wst))
            (result_file request_id))
       = Some (JString ''error''))
   \<and> field ''status''
         (files (snd (worker_save_result_to_disk WriteOk now request_id result wst))
            (result_file request_id))
       \<noteq> Some (JString ''running'')"
proof -
  have "field ''status''
          (files (snd (find_menu_options (Spawned pid) ctx WriteOk now address food_craving st))
            (result_file (ctx_request_id ctx)))
        = Some (JString ''completed'')"
    if "ctx_info ctx (''Search for '' @ [CHR 0x27] @ food_craving @ [CHR 0x27] @ '' at ''
                   @ [CHR 0x27] @ address @ [CHR 0x27] @ '' started in background'') = None"
  proof -
    have a: "ctx_info ctx (''Search for '' @ sq @ food_craving @ sq @ '' at '' @ sq @ address
                         @ sq @ '' started in background'') = None"
      using that by (simp add: sq_def)
    show ?thesis
      using not_startswith_initial_status [of address food_craving]
      by (simp add: find_menu_options_ok(3) [OF a] field_def data_def)
  qed
  moreover have "field ''status''
         (files (snd (save_result_to_disk WriteOk now request_id result st')) (result_file request_id))
       = Some (JString (if \<not> startswith result ''Error''
                            \<and> \<not> startswith result ''Search was cancelled''
                        then ''completed'' else ''error''))"
    by (simp add: save_result_to_disk_ok field_def data_def)
  moreover have "field ''status''
         (files (snd (worker_save_result_to_disk WriteOk now request_id result wst))
            (result_file request_id))
       = Some (JString (if \<not> startswith result ''Error''
                            \<and> \<not> startswith result ''Search was cancelled''
                        then ''completed'' else ''error''))"
    by (simp add: worker_save_files field_def data_def)
  ultimately show ?thesis
    by simp
qed

theorem C9_placeholder_status_completed_witness:
  "field ''status''
     (files (snd (find_menu_options (Spawned 4242) example_context WriteOk ''2025-06-01T12:00:00''
                    ''Stockholm, Sweden'' ''pizza'' example_server))
        (result_file ''7''))
   = Some (JString ''completed'')
   \<and> field ''status''
       (files (snd (save_result_to_disk WriteOk ''2025-06-01T12:00:00'' ''7'' ''running''
                      example_server)) (result_file ''7''))
     \<noteq> Some (JString ''running'')
   \<and> field ''status''
       (files (snd (worker_save_result_to_disk WriteOk ''2025-06-01T12:00:00'' ''7'' ''running''
                      example_worker)) (result_file ''7''))
     \<noteq> Some (JString ''running'')"
  using C9_placeholder_status_completed [where ctx = example_context and food_craving = "''pizza''"
      and address = "''Stockholm, Sweden''" and pid = 4242 and now = "''2025-06-01T12:00:00''"
      and st = example_server and request_id = "''7''" and result = "''running''"
      and st' = example_server and wst = example_worker]
  by (simp add: example_context_def)

text \<open>
  C10. When the file of a request identifier exists but does not parse, or parses to
  a dictionary with no \<open>result\<close> entry or with \<open>result\<close> being \<open>null\<close>,
  \<open>load_result_from_disk\<close> returns \<open>None\<close> without raising, whatever the read does, and
  \<open>get_search_results\<close> returns the text of \<open>search_results\<close> for the identifier if
  there is one, the not-found message otherwise.
\<close>

theorem C10_unusable_record_falls_through:
  assumes "files st (result_file request_id) = Some c"
    and "(\<exists>m. c = Garbage m)
         \<or> (\<exists>kv. c = Document (JObject kv)
                \<and> (map_of kv ''result'' = None \<or> map_of kv ''result'' = Some JNull))"
  shows "fst (load_result_from_disk r request_id st) = Returns JNull
         \<and> fst (get_search_results r request_id st)
             = Returns (JString (case search_results st request_id of
                                   Some text \<Rightarrow> text
                                 | None \<Rightarrow> ''No search results found for request ID: '' @ request_id))"
proof -
  have "durable_result r request_id st = None"
    using assms by (auto simp: durable_result_def field_def result_file_def)
  then show ?thesis
    by (simp add: load_result_from_disk_fst get_search_results_fst not_found_def
        split: option.splits)
qed

theorem C10_unusable_record_falls_through_witness:
  "fst (load_result_from_disk ReadOk ''2'' stale_server) = Returns JNull
   \<and> fst (get_search_results ReadOk ''2'' stale_server)
       = Returns (JString ''No search results found for request ID: 2'')
   \<and> fst (load_result_from_disk ReadOk ''3'' stale_server) = Returns JNull
   \<and> fst (get_search_results ReadOk ''3'' stale_server)
       = Returns (JString ''Search for pizza is running.'')
   \<and> fst (load_result_from_disk ReadOk ''4'' stale_server) = Returns JNull
   \<and> fst (get_search_results ReadOk ''4'' stale_server)
       = Returns (JString ''No search results found for request ID: 4'')"
  using
    C10_unusable_record_falls_through [of stale_server "''2''"
      "Garbage ''Expecting value: line 1 column 1 (char 0)''" ReadOk]
    C10_unusable_record_falls_through [of stale_server "''3''"
      "Document (JObject [(''request_id'', JString ''3'')])" ReadOk]
    C10_unusable_record_falls_through [of stale_server "''4''"
      "Document (JObject [(''request_id'', JString ''4''), (''result'', JNull)])" ReadOk]
  by (simp add: stale_server_def result_file_def)

end
